theory Spec2Isabelle
  imports Main "HOL-Library.AList"
begin

section \<open>The payment ledger\<close>

text \<open>
  The tables of the payment and subscription applications. Status values are the
  strings the source compares against (\<open>'pending'\<close>, \<open>'succeeded'\<close>, ...).
  Amounts are in minor currency units, times are seconds. A table is an association
  list from primary key to row, in the order a query returns it. A user has at most
  one pinned post and it is looked up by its user only (\<open>user.pinned_post\<close>), so
  that table maps a user to the post pinned; \<open>PinnedPost\<close> is the instance.
  A history row keeps its subscription, its action and, for a pin or unpin, the id
  and title of the post (its metadata); the description is text formatted from the
  same values and is left out. \<open>next_id\<close> is the key the database gives the next
  row inserted.
\<close>

record Payment =
  payment_user :: nat
  amount :: int
  status :: string
  stripe_session_id :: "string option"
  subscription :: "nat option"

record Refund =
  refund_payment_id :: nat
  refund_amount :: int
  refund_reason :: string
  refund_status :: string
  refund_created_by :: nat

record Subscription =
  sub_user :: nat
  sub_status :: string
  sub_duration_days :: int
  start_date :: int
  end_date :: int

record Post =
  post_id :: nat
  post_title :: string
  post_author :: nat
  post_status :: string

record PinnedPost =
  pin_user :: nat
  pin_post :: Post

record SubscriptionHistory =
  h_subscription :: nat
  h_action :: string
  h_post :: "(nat \<times> string) option"

text \<open>
  An event of the payment provider, as \<open>stripe.Webhook.construct_event\<close> returns it
  and as a WebhookEvent row stores it in \<open>data\<close>: its external id, its type (the
  two the webhook processor of spec 4.3 acts on, and any other), the provider session
  it is about and the provider's reason for a failure.
\<close>

datatype event_type = Checkout_session_completed | Payment_failed | Other_event

record stripe_event =
  ev_id :: string
  ev_type :: event_type
  ev_session_id :: string
  ev_reason :: string

record WebhookEvent =
  stripe_event_id :: string
  we_data :: stripe_event
  we_status :: string
  we_created_at :: int

record ledger =
  payments :: "(nat \<times> Payment) list"
  refunds :: "(nat \<times> Refund) list"
  subscriptions :: "(nat \<times> Subscription) list"
  pinned_posts :: "nat \<rightharpoonup> Post"
  history :: "SubscriptionHistory list"
  webhook_events :: "(nat \<times> WebhookEvent) list"
  next_id :: nat

section \<open>Payment signals (payment/signals.py)\<close>

text \<open>
  A model instance in memory: its primary key (\<open>None\<close> before the first save), its
  field values, and the dynamic attribute \<open>_previous_status\<close>. The outer option is
  \<open>hasattr(instance, '_previous_status')\<close>, the inner one Python's \<open>None\<close>.
\<close>

record Payment_instance =
  pk :: "nat option"
  row :: Payment
  previous_status :: "string option option"

text \<open>
  \<open>payment_pre_save\<close>: when the instance has a (truthy) primary key, remember the
  status of the stored row, or \<open>None\<close> when \<open>Payment.DoesNotExist\<close> is raised.
\<close>

definition payment_pre_save :: "ledger \<Rightarrow> Payment_instance \<Rightarrow> Payment_instance" where
  "payment_pre_save L inst =
     (case pk inst of
        None \<Rightarrow> inst
      | Some k \<Rightarrow>
          if k = 0 then inst
          else (case map_of (payments L) k of
                  Some previous \<Rightarrow> inst\<lparr>previous_status := Some (Some (status previous))\<rparr>
                | None \<Rightarrow> inst\<lparr>previous_status := Some None\<rparr>))"

text \<open>
  \<open>payment_post_save\<close>. The two operations of \<open>PaymentService\<close> it calls,
  \<open>process_successful_payment\<close> and \<open>process_failed_payment\<close>, live in
  \<open>payment/services.py\<close>, which is not among the sources: they are the parameters
  \<open>on_succeeded\<close> and \<open>on_failed\<close> here, and may raise (\<open>Inl\<close>). The handler
  calls \<open>process_failed_payment\<close> with the instance alone.
\<close>

definition payment_post_save ::
  "(ledger \<Rightarrow> Payment_instance \<Rightarrow> 'e + ledger) \<Rightarrow> (ledger \<Rightarrow> Payment_instance \<Rightarrow> 'e + ledger)
     \<Rightarrow> ledger \<Rightarrow> Payment_instance \<Rightarrow> bool \<Rightarrow> 'e + ledger" where
  "payment_post_save on_succeeded on_failed L inst created =
     (if \<not> created \<and> previous_status inst \<noteq> None then
        (if previous_status inst \<in> {Some (Some ''pending''), Some (Some ''processing'')}
            \<and> status (row inst) = ''succeeded''
         then on_succeeded L inst
         else if previous_status inst \<in> {Some (Some ''pending''), Some (Some ''processing'')}
            \<and> status (row inst) = ''failed''
         then on_failed L inst
         else Inr L)
      else Inr L)"

text \<open>
  \<open>payment.save()\<close>: Django sends \<open>pre_save\<close>, writes the row (an insert with a
  fresh key when the instance has none or no row has its key), then sends \<open>post_save\<close>
  with \<open>created\<close> telling which.
\<close>

definition Payment_save ::
  "(ledger \<Rightarrow> Payment_instance \<Rightarrow> 'e + ledger) \<Rightarrow> (ledger \<Rightarrow> Payment_instance \<Rightarrow> 'e + ledger)
     \<Rightarrow> ledger \<Rightarrow> Payment_instance \<Rightarrow> 'e + ledger" where
  "Payment_save on_succeeded on_failed L inst =
     (let inst1 = payment_pre_save L inst in
      case pk inst1 of
        Some k \<Rightarrow>
          payment_post_save on_succeeded on_failed
            (L\<lparr>payments := AList.update k (row inst1) (payments L)\<rparr>) inst1
            (map_of (payments L) k = None)
      | None \<Rightarrow>
          payment_post_save on_succeeded on_failed
            (L\<lparr>payments := AList.update (next_id L) (row inst1) (payments L),
                next_id := Suc (next_id L)\<rparr>)
            (inst1\<lparr>pk := Some (next_id L)\<rparr>) True)"

section \<open>Model properties (payment/models.py, subscribe/models.py)\<close>

text \<open>
  Modelled from the spec: the property \<open>is_pending\<close> of the Payment model
  (payment/models.py is not among the sources). The spec's data model gives Payment
  the statuses pending, processing, succeeded, failed and cancelled; the view that
  reads the property refuses with "Can only cancel pending payments".
\<close>

definition is_pending :: "Payment \<Rightarrow> bool" where
  "is_pending p = (status p = ''pending'')"

text \<open>
  Modelled from the spec: the property \<open>is_active\<close> of the Subscription model
  (subscribe/models.py is not among the sources). The spec's data model gives
  Subscription the statuses pending, active, cancelled and expired.
\<close>

definition is_active :: "Subscription \<Rightarrow> bool" where
  "is_active s = (sub_status s = ''active'')"

text \<open>
  \<open>user.subscription\<close>, the reverse side of the one-to-one link: the subscription
  row of the user, if there is one (\<open>hasattr(user, 'subscription')\<close> otherwise fails).
\<close>

definition user_subscription :: "ledger \<Rightarrow> nat \<Rightarrow> (nat \<times> Subscription) option" where
  "user_subscription L u = find (\<lambda>(k, s). sub_user s = u) (subscriptions L)"

section \<open>Subscription signals (subscribe/signals.py)\<close>

text \<open>
  \<open>pinned_post_pre_delete\<close> writes a history row when the user has a subscription;
  \<open>PinnedPost_delete\<close> is \<open>instance.delete()\<close>: the handler, then the row removed.
\<close>

definition pinned_post_pre_delete :: "ledger \<Rightarrow> PinnedPost \<Rightarrow> ledger" where
  "pinned_post_pre_delete L inst =
     (case user_subscription L (pin_user inst) of
        Some (sid, s) \<Rightarrow>
          L\<lparr>history := history L @
               [\<lparr>h_subscription = sid, h_action = ''post_unpinned'',
                 h_post = Some (post_id (pin_post inst), post_title (pin_post inst))\<rparr>]\<rparr>
      | None \<Rightarrow> L)"

definition PinnedPost_delete :: "ledger \<Rightarrow> PinnedPost \<Rightarrow> ledger" where
  "PinnedPost_delete L inst =
     (let L1 = pinned_post_pre_delete L inst
      in L1\<lparr>pinned_posts := (pinned_posts L1)(pin_user inst := None)\<rparr>)"

text \<open>
  \<open>pinned_post_post_save\<close>: a pinned post just created for a user with no
  subscription, or with one that is not active, is deleted again.
\<close>

definition pinned_post_post_save :: "ledger \<Rightarrow> PinnedPost \<Rightarrow> bool \<Rightarrow> ledger" where
  "pinned_post_post_save L inst created =
     (if created then
        (case user_subscription L (pin_user inst) of
           None \<Rightarrow> PinnedPost_delete L inst
         | Some (sid, s) \<Rightarrow>
             if \<not> is_active s then PinnedPost_delete L inst
             else L\<lparr>history := history L @
                    [\<lparr>h_subscription = sid, h_action = ''post_pinned'',
                      h_post = Some (post_id (pin_post inst), post_title (pin_post inst))\<rparr>]\<rparr>)
      else L)"

text \<open>
  \<open>subscription_pre_delete\<close>: \<open>instance.user.pinned_post.delete()\<close>, where a user
  without a pinned post raises \<open>PinnedPost.DoesNotExist\<close>, which is passed over.
  \<open>Subscription_delete\<close> is the deletion of the row after its handler. What becomes
  of the rows that refer to the subscription is declared in the model classes (not
  among the sources) and is left as it is here.
\<close>

definition subscription_pre_delete :: "ledger \<Rightarrow> Subscription \<Rightarrow> ledger" where
  "subscription_pre_delete L inst =
     (case pinned_posts L (sub_user inst) of
        Some post \<Rightarrow> PinnedPost_delete L \<lparr>pin_user = sub_user inst, pin_post = post\<rparr>
      | None \<Rightarrow> L)"

definition Subscription_delete :: "ledger \<Rightarrow> nat \<Rightarrow> ledger" where
  "Subscription_delete L sid =
     (case map_of (subscriptions L) sid of
        None \<Rightarrow> L
      | Some s \<Rightarrow>
          (let L1 = subscription_pre_delete L s
           in L1\<lparr>subscriptions := AList.delete sid (subscriptions L1)\<rparr>))"

section \<open>Pinned post serializers (subscribe/serializers.py)\<close>

datatype exn = ValidationError string | IntegrityError

definition validate_post :: "nat \<Rightarrow> Post \<Rightarrow> exn + Post" where
  "validate_post user v =
     (if post_author v \<noteq> user then Inl (ValidationError ''You can ony pinned your posts.'')
      else if post_status v \<noteq> ''published''
      then Inl (ValidationError ''Only published posts can be pinned.'')
      else Inr v)"

text \<open>
  The method the source names \<open>validete\<close>. The framework calls the hooks
  \<open>validate_<field>\<close> and \<open>validate\<close>; a method of any other name is never called.
\<close>

definition validete :: "ledger \<Rightarrow> nat \<Rightarrow> Post \<Rightarrow> exn + Post" where
  "validete L user attrs =
     (case user_subscription L user of
        None \<Rightarrow> Inl (ValidationError ''Active subscription required to pin posts.'')
      | Some (sid, s) \<Rightarrow>
          if \<not> is_active s
          then Inl (ValidationError ''Active subscription required to pin posts.'')
          else Inr attrs)"

text \<open>
  \<open>PinnedPostSerializer.is_valid()\<close>: the field hook \<open>validate_post\<close>, then the
  object-level hook \<open>validate\<close>, which PinnedPostSerializer does not override, so the
  base class's runs: it returns the attributes as they are.
\<close>

definition Serializer_validate :: "Post \<Rightarrow> exn + Post" where
  "Serializer_validate attrs = Inr attrs"

definition PinnedPostSerializer_is_valid :: "ledger \<Rightarrow> nat \<Rightarrow> Post \<Rightarrow> exn + Post" where
  "PinnedPostSerializer_is_valid L user post =
     (case validate_post user post of
        Inl e \<Rightarrow> Inl e
      | Inr v \<Rightarrow> Serializer_validate v)"

text \<open>
  \<open>PinnedPostSerializer.create\<close>: the row is inserted for the request's user (a
  second row for one user violates the one-to-one constraint), and \<open>post_save\<close> is
  sent with \<open>created = True\<close>.
\<close>

definition PinnedPostSerializer_create :: "ledger \<Rightarrow> nat \<Rightarrow> Post \<Rightarrow> exn + ledger" where
  "PinnedPostSerializer_create L user post =
     (if pinned_posts L user \<noteq> None then Inl IntegrityError
      else Inr (pinned_post_post_save
                  (L\<lparr>pinned_posts := (pinned_posts L)(user \<mapsto> post)\<rparr>)
                  \<lparr>pin_user = user, pin_post = post\<rparr> True))"

definition PinnedPostSerializer_save :: "ledger \<Rightarrow> nat \<Rightarrow> Post \<Rightarrow> exn + ledger" where
  "PinnedPostSerializer_save L user post =
     (case PinnedPostSerializer_is_valid L user post of
        Inl e \<Rightarrow> Inl e
      | Inr v \<Rightarrow> PinnedPostSerializer_create L user v)"

text \<open>\<open>PinPostSerializer.validate\<close>, the same check under the name the framework calls.\<close>

definition PinPostSerializer_validate :: "ledger \<Rightarrow> nat \<Rightarrow> nat \<Rightarrow> exn + nat" where
  "PinPostSerializer_validate L user attrs =
     (case user_subscription L user of
        None \<Rightarrow> Inl (ValidationError ''Active subscription required to pin posts.'')
      | Some (sid, s) \<Rightarrow>
          if \<not> is_active s
          then Inl (ValidationError ''Active subscription required to pin posts.'')
          else Inr attrs)"

section \<open>Payment Service (payment/services.py)\<close>

text \<open>
  The operations below write the history entries the spec gives them. The handler
  \<open>subscription_post_save\<close> of subscribe/signals.py adds a row on a save only when the
  instance carries \<open>_previous_status\<close>, which nothing among the sources sets for a
  Subscription; it is not part of these operations.
\<close>

text \<open>
  Modelled from the spec: \<open>PaymentService.process_successful_payment\<close>, whose file
  is not among the sources. Spec 4.1 and 4.2: it transitions the Payment to succeeded,
  activates the linked Subscription (status active, start date now, end date now plus
  the plan's duration in days) and writes an "activated" history entry; succeeded is
  reachable only from pending or processing, and from any other state the transition
  is a no-op.
\<close>

definition process_successful_payment :: "int \<Rightarrow> ledger \<Rightarrow> nat \<Rightarrow> ledger" where
  "process_successful_payment now L pid =
     (case map_of (payments L) pid of
        None \<Rightarrow> L
      | Some p \<Rightarrow>
          if status p \<notin> {''pending'', ''processing''} then L
          else
            (let L1 = L\<lparr>payments := AList.update pid (p\<lparr>status := ''succeeded''\<rparr>) (payments L)\<rparr>
             in case subscription p of
                  None \<Rightarrow> L1
                | Some sid \<Rightarrow>
                    (case map_of (subscriptions L1) sid of
                       None \<Rightarrow> L1
                     | Some s \<Rightarrow>
                         L1\<lparr>subscriptions :=
                              AList.update sid
                                (s\<lparr>sub_status := ''active'', start_date := now,
                                   end_date := now + 86400 * sub_duration_days s\<rparr>)
                                (subscriptions L1),
                            history := history L1 @
                              [\<lparr>h_subscription = sid, h_action = ''activated'', h_post = None\<rparr>]\<rparr>)))"

text \<open>
  Modelled from the spec: \<open>PaymentService.process_failed_payment\<close> (same file).
  Spec 4.1 and 4.2: it transitions the Payment to failed and the linked Subscription,
  if still pending, to cancelled; from a state other than pending or processing it is
  a no-op. The reason is kept nowhere in the spec's data model.
\<close>

definition process_failed_payment :: "ledger \<Rightarrow> nat \<Rightarrow> string \<Rightarrow> ledger" where
  "process_failed_payment L pid reason =
     (case map_of (payments L) pid of
        None \<Rightarrow> L
      | Some p \<Rightarrow>
          if status p \<notin> {''pending'', ''processing''} then L
          else
            (let L1 = L\<lparr>payments := AList.update pid (p\<lparr>status := ''failed''\<rparr>) (payments L)\<rparr>
             in case subscription p of
                  None \<Rightarrow> L1
                | Some sid \<Rightarrow>
                    (case map_of (subscriptions L1) sid of
                       None \<Rightarrow> L1
                     | Some s \<Rightarrow>
                         if sub_status s = ''pending''
                         then L1\<lparr>subscriptions :=
                                   AList.update sid (s\<lparr>sub_status := ''cancelled''\<rparr>)
                                     (subscriptions L1)\<rparr>
                         else L1)))"

text \<open>
  Modelled from the spec: \<open>PaymentService.cancel_subscription\<close> (same file). Spec
  4.1: it transitions the Subscription to cancelled, deletes any PinnedPost of its
  user and writes a history entry. The pinned post is deleted as the source deletes
  one, through \<open>PinnedPost_delete\<close>.
\<close>

definition cancel_subscription :: "ledger \<Rightarrow> nat \<Rightarrow> ledger" where
  "cancel_subscription L sid =
     (case map_of (subscriptions L) sid of
        None \<Rightarrow> L
      | Some s \<Rightarrow>
          (let L1 = L\<lparr>subscriptions :=
                        AList.update sid (s\<lparr>sub_status := ''cancelled''\<rparr>) (subscriptions L)\<rparr>;
               L2 = (case pinned_posts L1 (sub_user s) of
                       Some post \<Rightarrow> PinnedPost_delete L1 \<lparr>pin_user = sub_user s, pin_post = post\<rparr>
                     | None \<Rightarrow> L1)
           in L2\<lparr>history := history L2 @
                   [\<lparr>h_subscription = sid, h_action = ''cancelled'', h_post = None\<rparr>]\<rparr>))"

section \<open>Webhook Service (payment/services.py)\<close>

text \<open>
  \<open>WebhookService.process_stripe_webhook\<close> is not among the sources. The
  definitions of this section follow the five steps of spec 4.3, each under the step
  it models.
\<close>

text \<open>
  Modelled from the spec: the dispatch of an event by its type, missing with
  payment/services.py. Spec 4.3 (3) and (5): a completed checkout session resolves the
  local Payment by its provider session id and calls \<open>process_successful_payment\<close>; a
  failed payment calls \<open>process_failed_payment\<close> with the reason the provider
  supplies; an event type that is not recognised makes no transition. A handler that
  finds no Payment for the session id fails (\<open>Handler_exception\<close>, the spec's
  NotFoundError).
\<close>

datatype dispatch = Handled ledger | Unrecognised | Handler_exception

definition payment_by_session :: "ledger \<Rightarrow> string \<Rightarrow> (nat \<times> Payment) option" where
  "payment_by_session L sid = find (\<lambda>(k, p). stripe_session_id p = Some sid) (payments L)"

definition dispatch_event :: "int \<Rightarrow> ledger \<Rightarrow> stripe_event \<Rightarrow> dispatch" where
  "dispatch_event now L ev =
     (case ev_type ev of
        Checkout_session_completed \<Rightarrow>
          (case payment_by_session L (ev_session_id ev) of
             Some (pid, p) \<Rightarrow> Handled (process_successful_payment now L pid)
           | None \<Rightarrow> Handler_exception)
      | Payment_failed \<Rightarrow>
          (case payment_by_session L (ev_session_id ev) of
             Some (pid, p) \<Rightarrow> Handled (process_failed_payment L pid (ev_reason ev))
           | None \<Rightarrow> Handler_exception)
      | Other_event \<Rightarrow> Unrecognised)"

text \<open>
  Modelled from the spec: marking a WebhookEvent and looking one up, missing with
  payment/services.py. Spec 4.3 (1), (4) and (5): the event is looked up by its
  external event id and marked processed, failed or ignored.
\<close>

definition set_event_status :: "ledger \<Rightarrow> nat \<Rightarrow> string \<Rightarrow> ledger" where
  "set_event_status L k st =
     L\<lparr>webhook_events := AList.map_entry k (\<lambda>e. e\<lparr>we_status := st\<rparr>) (webhook_events L)\<rparr>"

definition event_by_external_id :: "ledger \<Rightarrow> string \<Rightarrow> (nat \<times> WebhookEvent) option" where
  "event_by_external_id L x = find (\<lambda>(k, e). stripe_event_id e = x) (webhook_events L)"

text \<open>
  Modelled from the spec: the outcome of a dispatch, missing with payment/services.py.
  Spec 4.3 (4) and (5): on a successful dispatch the event is marked processed; on a
  handler exception it is marked failed and failure is returned, with nothing of the
  failed handler kept; an event that is not recognised is marked ignored, with success.
\<close>

definition run_event :: "int \<Rightarrow> ledger \<Rightarrow> nat \<Rightarrow> stripe_event \<Rightarrow> bool \<times> ledger" where
  "run_event now L k ev =
     (case dispatch_event now L ev of
        Handled L1 \<Rightarrow> (True, set_event_status L1 k ''processed'')
      | Unrecognised \<Rightarrow> (True, set_event_status L k ''ignored'')
      | Handler_exception \<Rightarrow> (False, set_event_status L k ''failed''))"

text \<open>
  Modelled from the spec: \<open>WebhookService.process_stripe_webhook\<close>, missing with
  payment/services.py. Spec 4.3 (1) and (2): look the WebhookEvent up by its external
  event id; if it is found with status processed, return success at once; if it is
  not found, insert one with status pending and the payload; then dispatch.
\<close>

definition process_stripe_webhook :: "int \<Rightarrow> ledger \<Rightarrow> stripe_event \<Rightarrow> bool \<times> ledger" where
  "process_stripe_webhook now L ev =
     (case event_by_external_id L (ev_id ev) of
        Some (k, e) \<Rightarrow>
          if we_status e = ''processed'' then (True, L)
          else run_event now L k ev
      | None \<Rightarrow>
          run_event now
            (L\<lparr>webhook_events := webhook_events L @
                  [(next_id L, \<lparr>stripe_event_id = ev_id ev, we_data = ev,
                                we_status = ''pending'', we_created_at = now\<rparr>)],
                next_id := Suc (next_id L)\<rparr>)
            (next_id L) ev)"

text \<open>
  Modelled from the spec: \<open>WebhookEvent.mark_as_processed\<close> (payment/models.py, not
  among the sources): the instance, as it was loaded, is saved with status processed.
\<close>

definition mark_as_processed :: "ledger \<Rightarrow> nat \<Rightarrow> WebhookEvent \<Rightarrow> ledger" where
  "mark_as_processed L k e =
     L\<lparr>webhook_events := AList.update k (e\<lparr>we_status := ''processed''\<rparr>) (webhook_events L)\<rparr>"

section \<open>Payment views (payment/views.py)\<close>

text \<open>
  A view returns the HTTP status of its response and the ledger it leaves. An
  exception that leaves the view is \<open>Inl\<close>. \<open>get_object_or_404\<close> answers 404 when
  no row matches; \<open>loaded\<close> is the instance it returns otherwise.
\<close>

definition get_payment :: "ledger \<Rightarrow> nat \<Rightarrow> nat \<Rightarrow> Payment option" where
  "get_payment L payment_id user =
     (case map_of (payments L) payment_id of
        Some p \<Rightarrow> if payment_user p = user then Some p else None
      | None \<Rightarrow> None)"

definition loaded :: "nat \<Rightarrow> Payment \<Rightarrow> Payment_instance" where
  "loaded payment_id p = \<lparr>pk = Some payment_id, row = p, previous_status = None\<rparr>"

text \<open>
  \<open>payment_status\<close>. \<open>StripeService.retrieve_session\<close> is the provider: a parameter
  giving the session's status, or \<open>None\<close> when the gateway has no session to return.
  The third component of the result lists the session ids the view asked the provider
  about. The two transition operations are the parameters \<open>on_succeeded\<close> and
  \<open>on_failed\<close>, as in the signal handler; the failed one is called with the reason
  \<open>"Session failed"\<close>. The body of the response repeats the instance's status and
  is left out.
\<close>

definition payment_status ::
  "(string \<Rightarrow> string option) \<Rightarrow> (ledger \<Rightarrow> Payment_instance \<Rightarrow> 'e + ledger)
     \<Rightarrow> (ledger \<Rightarrow> Payment_instance \<Rightarrow> string \<Rightarrow> 'e + ledger)
     \<Rightarrow> ledger \<Rightarrow> nat \<Rightarrow> nat \<Rightarrow> 'e + nat \<times> ledger \<times> string list" where
  "payment_status retrieve_session on_succeeded on_failed
       L user payment_id =
     (case get_payment L payment_id user of
        None \<Rightarrow> Inr (404, L, [])
      | Some payment \<Rightarrow>
          (case stripe_session_id payment of
             None \<Rightarrow> Inr (200, L, [])
           | Some session_id \<Rightarrow>
               if session_id \<noteq> [] \<and> status payment \<in> {''pending'', ''processing''} then
                 (case retrieve_session session_id of
                    None \<Rightarrow> Inr (200, L, [session_id])
                  | Some session_status \<Rightarrow>
                      if session_status = ''complete'' then
                        (case on_succeeded L (loaded payment_id payment) of
                           Inl e \<Rightarrow> Inl e
                         | Inr L1 \<Rightarrow> Inr (200, L1, [session_id]))
                      else if session_status = ''failed'' then
                        (case on_failed L (loaded payment_id payment)
                                ''Session failed'' of
                           Inl e \<Rightarrow> Inl e
                         | Inr L1 \<Rightarrow> Inr (200, L1, [session_id]))
                      else Inr (200, L, [session_id]))
               else Inr (200, L, [])))"

text \<open>
  \<open>cancel_payment\<close>. \<open>payment.save()\<close> runs the two signal handlers above;
  \<open>Subscription.cancel\<close> (subscribe/models.py, not among the sources) is a parameter
  taking the key of the subscription.
\<close>

definition cancel_payment ::
  "(ledger \<Rightarrow> Payment_instance \<Rightarrow> 'e + ledger) \<Rightarrow> (ledger \<Rightarrow> Payment_instance \<Rightarrow> 'e + ledger)
     \<Rightarrow> (ledger \<Rightarrow> nat \<Rightarrow> 'e + ledger) \<Rightarrow> ledger \<Rightarrow> nat \<Rightarrow> nat \<Rightarrow> 'e + nat \<times> ledger" where
  "cancel_payment on_succeeded on_failed cancel L user payment_id =
     (case get_payment L payment_id user of
        None \<Rightarrow> Inr (404, L)
      | Some payment \<Rightarrow>
          if \<not> is_pending payment then Inr (400, L)
          else
            (case Payment_save on_succeeded on_failed L
                    (loaded payment_id (payment\<lparr>status := ''cancelled''\<rparr>)) of
               Inl e \<Rightarrow> Inl e
             | Inr L1 \<Rightarrow>
                 (case subscription payment of
                    None \<Rightarrow> Inr (200, L1)
                  | Some sid \<Rightarrow>
                      (case cancel L1 sid of
                         Inl e \<Rightarrow> Inl e
                       | Inr L2 \<Rightarrow> Inr (200, L2)))))"

subsection \<open>Refunds\<close>

record refund_request =
  req_amount :: int
  req_reason :: string

text \<open>
  Modelled from the spec: the amount of a payment already refunded, which the two
  checks below read. Spec 3: the sum of the succeeded refund amounts of the payment.
\<close>

definition total_refunded :: "ledger \<Rightarrow> nat \<Rightarrow> int" where
  "total_refunded L pid =
     sum_list (map (\<lambda>(k, r). refund_amount r)
       (filter (\<lambda>(k, r). refund_payment_id r = pid \<and> refund_status r = ''succeeded'')
          (refunds L)))"

text \<open>
  Modelled from the spec: the property \<open>can_be_refunded\<close> of the Payment model
  (payment/models.py is not among the sources). Spec 4.4: the payment must be in a
  refundable state (succeeded, not already fully refunded).
\<close>

definition can_be_refunded :: "ledger \<Rightarrow> nat \<Rightarrow> Payment \<Rightarrow> bool" where
  "can_be_refunded L pid p = (status p = ''succeeded'' \<and> total_refunded L pid < amount p)"

text \<open>
  Modelled from the spec: \<open>RefundCreateSerializer.is_valid\<close> for the payment of its
  context (payment/serializers.py is not among the sources). Spec 4.4: the amount is
  at most the remaining refundable amount.
\<close>

definition RefundCreateSerializer_is_valid :: "ledger \<Rightarrow> nat \<Rightarrow> refund_request \<Rightarrow> bool" where
  "RefundCreateSerializer_is_valid L pid data =
     (case map_of (payments L) pid of
        None \<Rightarrow> False
      | Some p \<Rightarrow> req_amount data \<le> amount p - total_refunded L pid)"

text \<open>
  Modelled from the spec: the row \<open>RefundCreateSerializer.save\<close> creates for the
  payment and the admin the view passes (same file). Spec 4.4: a Refund with status
  pending.
\<close>

definition new_refund :: "nat \<Rightarrow> nat \<Rightarrow> refund_request \<Rightarrow> Refund" where
  "new_refund pid admin data =
     \<lparr>refund_payment_id = pid, refund_amount = req_amount data,
      refund_reason = req_reason data, refund_status = ''pending'',
      refund_created_by = admin\<rparr>"

text \<open>
  Modelled from the spec: \<open>Refund.process_refund\<close> (payment/models.py is not among
  the sources). Spec 4.4: on provider success the Refund transitions to succeeded.
\<close>

definition process_refund :: "ledger \<Rightarrow> nat \<Rightarrow> Refund \<Rightarrow> ledger" where
  "process_refund L rid refund =
     L\<lparr>refunds := AList.update rid (refund\<lparr>refund_status := ''succeeded''\<rparr>) (refunds L)\<rparr>"

text \<open>
  \<open>create_refund\<close>. \<open>StripeService.refund_payment\<close> is the provider: a parameter
  that answers whether the refund went through. The block under
  \<open>transaction.atomic()\<close> is left by a \<open>return\<close> on both branches, so it commits.
\<close>

definition create_refund ::
  "(Payment \<Rightarrow> int \<Rightarrow> string \<Rightarrow> bool) \<Rightarrow> ledger \<Rightarrow> nat \<Rightarrow> nat \<Rightarrow> refund_request
     \<Rightarrow> nat \<times> ledger" where
  "create_refund refund_payment L admin payment_id data =
     (case map_of (payments L) payment_id of
        None \<Rightarrow> (404, L)
      | Some payment \<Rightarrow>
          if \<not> can_be_refunded L payment_id payment then (400, L)
          else if RefundCreateSerializer_is_valid L payment_id data then
            (let refund = new_refund payment_id admin data;
                 rid = next_id L;
                 L1 = L\<lparr>refunds := refunds L @ [(rid, refund)], next_id := Suc rid\<rparr>
             in if refund_payment payment (refund_amount refund) (refund_reason refund) then
                  (let L2 = process_refund L1 rid refund
                   in case subscription payment of
                        Some sid \<Rightarrow>
                          if refund_amount refund = amount payment
                          then (201, cancel_subscription L2 sid)
                          else (201, L2)
                      | None \<Rightarrow> (201, L2))
                else
                  (400, L1\<lparr>refunds :=
                             AList.update rid (refund\<lparr>refund_status := ''failed''\<rparr>) (refunds L1)\<rparr>))
          else (400, L))"

subsection \<open>The webhook endpoint\<close>

text \<open>
  \<open>stripe_webhook\<close>. \<open>stripe.Webhook.construct_event\<close> is a parameter: it returns
  the event, or raises \<open>ValueError\<close> (the payload does not parse) or
  \<open>SignatureVerificationError\<close>. \<open>WebhookService.process_stripe_webhook\<close> is a
  parameter too.
\<close>

datatype construct_error = ValueError | SignatureVerificationError

definition stripe_webhook ::
  "(string \<Rightarrow> string option \<Rightarrow> string \<Rightarrow> construct_error + 'ev)
     \<Rightarrow> (ledger \<Rightarrow> 'ev \<Rightarrow> bool \<times> ledger) \<Rightarrow> string \<Rightarrow> ledger \<Rightarrow> string \<Rightarrow> string option
     \<Rightarrow> nat \<times> ledger" where
  "stripe_webhook construct_event process secret L payload sig_header =
     (case construct_event payload sig_header secret of
        Inl ValueError \<Rightarrow> (400, L)
      | Inl SignatureVerificationError \<Rightarrow> (400, L)
      | Inr event \<Rightarrow>
          (case process L event of
             (success, L1) \<Rightarrow> if success then (200, L1) else (400, L1)))"

section \<open>Periodic tasks (payment/tasks.py)\<close>

text \<open>
  \<open>retry_failed_webhook_events\<close>. \<open>failed_events\<close> is the sliced queryset, read
  once when the loop starts; 24 hours are 86400 seconds. The loop hands the stored
  data of each event to \<open>process_stripe_webhook\<close> (a parameter), marks the event
  processed on success and counts the successes; the task returns the count.
\<close>

definition failed_events :: "int \<Rightarrow> ledger \<Rightarrow> (nat \<times> WebhookEvent) list" where
  "failed_events now L =
     take 50 (filter (\<lambda>(k, e). we_status e = ''failed'' \<and> now - 86400 \<le> we_created_at e)
                (webhook_events L))"

fun retry_loop ::
  "(ledger \<Rightarrow> stripe_event \<Rightarrow> bool \<times> ledger) \<Rightarrow> (nat \<times> WebhookEvent) list \<Rightarrow> ledger \<Rightarrow> nat
     \<Rightarrow> nat \<times> ledger" where
  "retry_loop process [] L processed_count = (processed_count, L)"
| "retry_loop process ((k, e) # es) L processed_count =
     (case process L (we_data e) of
        (success, L1) \<Rightarrow>
          if success
          then retry_loop process es (mark_as_processed L1 k e) (processed_count + 1)
          else retry_loop process es L1 processed_count)"

definition retry_failed_webhook_events ::
  "(ledger \<Rightarrow> stripe_event \<Rightarrow> bool \<times> ledger) \<Rightarrow> int \<Rightarrow> ledger \<Rightarrow> nat \<times> ledger" where
  "retry_failed_webhook_events process now L = retry_loop process (failed_events now L) L 0"

section \<open>The services as the views call them\<close>

text \<open>
  Modelled from the spec: the two transition operations of the Payment Service above,
  in the shape of the parameters of the views and the signal handler: they take the
  instance and find its row by its key. An instance that was never saved has no row
  to transition.
\<close>

definition service_succeeded :: "int \<Rightarrow> ledger \<Rightarrow> Payment_instance \<Rightarrow> unit + ledger" where
  "service_succeeded now L inst =
     (case pk inst of
        Some k \<Rightarrow> Inr (process_successful_payment now L k)
      | None \<Rightarrow> Inl ())"

definition service_failed :: "ledger \<Rightarrow> Payment_instance \<Rightarrow> string \<Rightarrow> unit + ledger" where
  "service_failed L inst reason =
     (case pk inst of
        Some k \<Rightarrow> Inr (process_failed_payment L k reason)
      | None \<Rightarrow> Inl ())"

section \<open>Notions the properties are stated with\<close>

text \<open>
  \<open>stale payment session_id\<close>: the local status is pending or processing and the
  payment carries the provider session id \<open>session_id\<close>.
  \<open>same_entitlements\<close>: two ledgers agree on payments, subscriptions, pinned posts
  and subscription history (they may differ in the webhook events kept).
  \<open>keys_allocated\<close>: the webhook events have distinct primary keys, all below the
  next key the database hands out.
  \<open>recording_service ok\<close>: a webhook service that does nothing but record each call,
  as a history row naming the event it was given (\<open>call_marker\<close>), and answers
  \<open>ok\<close> of that event; it shows what a task calls the service on.
\<close>

definition stale :: "Payment \<Rightarrow> string \<Rightarrow> bool" where
  "stale payment session_id =
     (stripe_session_id payment = Some session_id \<and> session_id \<noteq> []
      \<and> status payment \<in> {''pending'', ''processing''})"

definition same_entitlements :: "ledger \<Rightarrow> ledger \<Rightarrow> bool" where
  "same_entitlements A B =
     (payments A = payments B \<and> subscriptions A = subscriptions B
      \<and> pinned_posts A = pinned_posts B \<and> history A = history B)"

definition keys_allocated :: "ledger \<Rightarrow> bool" where
  "keys_allocated L =
     (distinct (map fst (webhook_events L))
      \<and> list_all (\<lambda>(k, e). k < next_id L) (webhook_events L))"

definition call_marker :: "stripe_event \<Rightarrow> SubscriptionHistory" where
  "call_marker ev = \<lparr>h_subscription = 0, h_action = ev_id ev, h_post = None\<rparr>"

definition recording_service ::
  "(stripe_event \<Rightarrow> bool) \<Rightarrow> ledger \<Rightarrow> stripe_event \<Rightarrow> bool \<times> ledger" where
  "recording_service ok L ev = (ok ev, L\<lparr>history := history L @ [call_marker ev]\<rparr>)"

section \<open>Example ledgers\<close>

text \<open>
  User 1 has payment 10 of 1000 for subscription 5, and wrote post 7. In
  \<open>ledger_pending\<close> the checkout is open; in \<open>ledger_paid\<close> the payment has
  succeeded, the subscription is active and post 7 is pinned; in
  \<open>ledger_cancelled\<close> the payment was cancelled. User 2 has no subscription.
\<close>

definition post7 :: Post where
  "post7 = \<lparr>post_id = 7, post_title = ''Hello'', post_author = 1, post_status = ''published''\<rparr>"

definition post8 :: Post where
  "post8 = \<lparr>post_id = 8, post_title = ''News'', post_author = 2, post_status = ''published''\<rparr>"

definition payment10 :: Payment where
  "payment10 = \<lparr>payment_user = 1, amount = 1000, status = ''pending'',
                 stripe_session_id = Some ''cs_test_1'', subscription = Some 5\<rparr>"

definition subscription5 :: Subscription where
  "subscription5 = \<lparr>sub_user = 1, sub_status = ''pending'', sub_duration_days = 30,
                     start_date = 0, end_date = 0\<rparr>"

definition ledger_pending :: ledger where
  "ledger_pending =
     \<lparr>payments = [(10, payment10)], refunds = [], subscriptions = [(5, subscription5)],
      pinned_posts = Map.empty, history = [], webhook_events = [], next_id = 11\<rparr>"

definition ledger_paid :: ledger where
  "ledger_paid =
     \<lparr>payments = [(10, payment10\<lparr>status := ''succeeded''\<rparr>)], refunds = [],
      subscriptions = [(5, subscription5\<lparr>sub_status := ''active'', end_date := 2592000\<rparr>)],
      pinned_posts = [1 \<mapsto> post7],
      history = [], webhook_events = [], next_id = 11\<rparr>"

definition ledger_cancelled :: ledger where
  "ledger_cancelled =
     \<lparr>payments = [(10, payment10\<lparr>status := ''cancelled''\<rparr>)], refunds = [],
      subscriptions = [(5, subscription5\<lparr>sub_status := ''cancelled''\<rparr>)],
      pinned_posts = Map.empty, history = [], webhook_events = [], next_id = 11\<rparr>"

text \<open>
  \<open>ledger_retry\<close>: the open checkout with three webhook events on record, read at
  time 100000: event 20 failed and is recent, event 21 is processed, event 22 failed
  more than 24 hours ago.
\<close>

definition event1 :: stripe_event where
  "event1 = \<lparr>ev_id = ''evt_1'', ev_type = Checkout_session_completed,
              ev_session_id = ''cs_test_1'', ev_reason = []\<rparr>"

definition event2 :: stripe_event where
  "event2 = \<lparr>ev_id = ''evt_2'', ev_type = Other_event,
              ev_session_id = [], ev_reason = []\<rparr>"

definition event3 :: stripe_event where
  "event3 = \<lparr>ev_id = ''evt_3'', ev_type = Payment_failed,
              ev_session_id = ''cs_test_9'', ev_reason = ''card_declined''\<rparr>"

definition stored_event1 :: WebhookEvent where
  "stored_event1 = \<lparr>stripe_event_id = ''evt_1'', we_data = event1,
                     we_status = ''failed'', we_created_at = 90000\<rparr>"

definition ledger_retry :: ledger where
  "ledger_retry =
     ledger_pending
       \<lparr>webhook_events :=
          [(20, stored_event1),
           (21, \<lparr>stripe_event_id = ''evt_2'', we_data = event2,
                 we_status = ''processed'', we_created_at = 95000\<rparr>),
           (22, \<lparr>stripe_event_id = ''evt_3'', we_data = event3,
                 we_status = ''failed'', we_created_at = 1000\<rparr>)],
        next_id := 23\<rparr>"

section \<open>Properties\<close>

subsection \<open>Frame lemmas\<close>

lemma PinnedPost_delete_frame:
  "pinned_posts (PinnedPost_delete L inst) = (pinned_posts L)(pin_user inst := None)"
  "subscriptions (PinnedPost_delete L inst) = subscriptions L"
  "payments (PinnedPost_delete L inst) = payments L"
  "refunds (PinnedPost_delete L inst) = refunds L"
  "webhook_events (PinnedPost_delete L inst) = webhook_events L"
  "next_id (PinnedPost_delete L inst) = next_id L"
  by (simp_all add: PinnedPost_delete_def pinned_post_pre_delete_def Let_def
        split: option.splits prod.splits)

lemma cancel_subscription_effect:
  assumes "map_of (subscriptions L) sid = Some s"
  shows "map_of (subscriptions (cancel_subscription L sid)) sid
           = Some (s\<lparr>sub_status := ''cancelled''\<rparr>)"
    and "pinned_posts (cancel_subscription L sid) (sub_user s) = None"
  using assms
  by (simp_all add: cancel_subscription_def Let_def PinnedPost_delete_frame update_conv
        split: option.splits)

lemma cancel_subscription_frame:
  "refunds (cancel_subscription L sid) = refunds L"
  "payments (cancel_subscription L sid) = payments L"
  "webhook_events (cancel_subscription L sid) = webhook_events L"
  "next_id (cancel_subscription L sid) = next_id L"
  by (simp_all add: cancel_subscription_def Let_def PinnedPost_delete_frame
        split: option.splits)

lemma process_successful_payment_events:
  "process_successful_payment now (L\<lparr>webhook_events := w, next_id := n\<rparr>) pid
     = (process_successful_payment now L pid)\<lparr>webhook_events := w, next_id := n\<rparr>"
  by (simp add: process_successful_payment_def Let_def split: option.splits)

lemma process_failed_payment_events:
  "process_failed_payment (L\<lparr>webhook_events := w, next_id := n\<rparr>) pid reason
     = (process_failed_payment L pid reason)\<lparr>webhook_events := w, next_id := n\<rparr>"
  by (simp add: process_failed_payment_def Let_def split: option.splits)

lemma process_failed_payment_reason:
  "process_failed_payment L pid reason = process_failed_payment L pid reason'"
  by (simp add: process_failed_payment_def)

lemma process_successful_payment_webhook_events:
  "webhook_events (process_successful_payment now L pid) = webhook_events L"
  by (simp add: process_successful_payment_def Let_def split: option.splits)

lemma process_failed_payment_webhook_events:
  "webhook_events (process_failed_payment L pid reason) = webhook_events L"
  by (simp add: process_failed_payment_def Let_def split: option.splits)

lemma payment_by_session_events:
  "payment_by_session (L\<lparr>webhook_events := w, next_id := n\<rparr>) sid = payment_by_session L sid"
  by (simp add: payment_by_session_def)

lemma set_event_status_frame:
  "payments (set_event_status L k st) = payments L"
  "subscriptions (set_event_status L k st) = subscriptions L"
  "pinned_posts (set_event_status L k st) = pinned_posts L"
  "history (set_event_status L k st) = history L"
  "refunds (set_event_status L k st) = refunds L"
  by (simp_all add: set_event_status_def)

subsection \<open>Webhook events: looking up, marking, dispatching\<close>

lemma find_map_entry:
  assumes "distinct (map fst xs)"
      and "find (\<lambda>(k, e). stripe_event_id e = x) xs = Some (k, e)"
      and "\<And>e. stripe_event_id (f e) = stripe_event_id e"
  shows "find (\<lambda>(k, e). stripe_event_id e = x) (AList.map_entry k f xs) = Some (k, f e)"
  using assms(1,2)
proof (induction xs)
  case Nil
  then show ?case by simp
next
  case (Cons a xs)
  obtain k' e' where a: "a = (k', e')" by (cases a)
  show ?case
  proof (cases "stripe_event_id e' = x")
    case True
    with Cons.prems a show ?thesis by (simp add: assms(3))
  next
    case False
    with Cons.prems a have f: "find (\<lambda>(k, e). stripe_event_id e = x) xs = Some (k, e)"
      by simp
    then have "(k, e) \<in> set xs" by (auto simp add: find_Some_iff in_set_conv_nth)
    with Cons.prems a have "k \<noteq> k'" by force
    with Cons a f False show ?thesis by simp
  qed
qed

lemma map_entry_idem:
  assumes "\<And>e. f (f e) = f e"
  shows "AList.map_entry k f (AList.map_entry k f xs) = AList.map_entry k f xs"
  by (induction xs) (auto simp add: assms)

lemma find_append_new:
  assumes "find P xs = None" and "P y"
  shows "find P (xs @ [y]) = Some y"
  using assms by (induction xs) (auto split: if_splits)

lemma dispatch_event_webhook_events:
  "dispatch_event now L ev = Handled L1 \<Longrightarrow> webhook_events L1 = webhook_events L"
  by (auto simp add: dispatch_event_def process_successful_payment_webhook_events
        process_failed_payment_webhook_events split: event_type.splits option.splits)

lemma dispatch_event_Unrecognised:
  "dispatch_event now L ev = Unrecognised \<longleftrightarrow> ev_type ev = Other_event"
  by (auto simp add: dispatch_event_def split: event_type.splits option.splits)

lemma already_processed:
  assumes "event_by_external_id L (ev_id ev) = Some (k, e)" and "we_status e = ''processed''"
  shows "process_stripe_webhook now L ev = (True, L)"
  using assms by (simp add: process_stripe_webhook_def)

lemma run_event_idem:
  assumes d: "distinct (map fst (webhook_events L))"
      and f: "event_by_external_id L (ev_id ev) = Some (k, e)"
      and r: "run_event now L k ev = (True, L1)"
  shows "process_stripe_webhook now2 L1 ev = (True, L1)"
proof (cases "dispatch_event now L ev")
  case (Handled L')
  with r have L1: "L1 = set_event_status L' k ''processed''" by (simp add: run_event_def)
  from Handled have w: "webhook_events L' = webhook_events L"
    by (rule dispatch_event_webhook_events)
  have "event_by_external_id L1 (ev_id ev) = Some (k, e\<lparr>we_status := ''processed''\<rparr>)"
    using find_map_entry [OF d f [unfolded event_by_external_id_def],
            of "\<lambda>e. e\<lparr>we_status := ''processed''\<rparr>"]
    by (simp add: L1 set_event_status_def event_by_external_id_def w)
  then show ?thesis by (simp add: process_stripe_webhook_def)
next
  case Unrecognised
  with r have L1: "L1 = set_event_status L k ''ignored''" by (simp add: run_event_def)
  have e1: "event_by_external_id L1 (ev_id ev) = Some (k, e\<lparr>we_status := ''ignored''\<rparr>)"
    using find_map_entry [OF d f [unfolded event_by_external_id_def],
            of "\<lambda>e. e\<lparr>we_status := ''ignored''\<rparr>"]
    by (simp add: L1 set_event_status_def event_by_external_id_def)
  from Unrecognised have "ev_type ev = Other_event" by (simp add: dispatch_event_Unrecognised)
  then have u: "dispatch_event now2 L1 ev = Unrecognised"
    by (simp add: dispatch_event_Unrecognised)
  have "set_event_status L1 k ''ignored'' = L1"
    by (simp add: L1 set_event_status_def map_entry_idem)
  with e1 u show ?thesis by (simp add: process_stripe_webhook_def run_event_def)
next
  case Handler_exception
  with r show ?thesis by (simp add: run_event_def)
qed

lemma process_stripe_webhook_idem:
  assumes wf: "keys_allocated L"
      and r: "process_stripe_webhook now L ev = (True, L1)"
  shows "process_stripe_webhook now2 L1 ev = (True, L1)"
proof (cases "event_by_external_id L (ev_id ev)")
  case None
  let ?new = "(next_id L, \<lparr>stripe_event_id = ev_id ev, we_data = ev,
                  we_status = ''pending'', we_created_at = now\<rparr>)"
  let ?L0 = "L\<lparr>webhook_events := webhook_events L @ [?new], next_id := Suc (next_id L)\<rparr>"
  from None r have r0: "run_event now ?L0 (next_id L) ev = (True, L1)"
    by (simp add: process_stripe_webhook_def)
  from wf have "next_id L \<notin> fst ` set (webhook_events L)"
    by (auto simp add: keys_allocated_def list_all_iff)
  with wf have d0: "distinct (map fst (webhook_events ?L0))"
    by (simp add: keys_allocated_def)
  have f0: "event_by_external_id ?L0 (ev_id ev) = Some ?new"
    using None by (simp add: event_by_external_id_def find_append_new)
  from run_event_idem [OF d0 f0 r0] show ?thesis .
next
  case (Some a)
  obtain k e where a: "a = (k, e)" by (cases a)
  show ?thesis
  proof (cases "we_status e = ''processed''")
    case True
    with Some a r have "L1 = L" by (simp add: process_stripe_webhook_def)
    with Some a True show ?thesis by (simp add: process_stripe_webhook_def)
  next
    case False
    with Some a r have "run_event now L k ev = (True, L1)"
      by (simp add: process_stripe_webhook_def)
    with wf Some a show ?thesis by (auto intro: run_event_idem simp add: keys_allocated_def)
  qed
qed

lemma stripe_webhook_200:
  assumes "construct_event payload sig_header secret = Inr ev"
  shows "stripe_webhook construct_event process secret L payload sig_header = (200, L1)
           \<longleftrightarrow> process L ev = (True, L1)"
  using assms by (auto simp add: stripe_webhook_def split: prod.splits if_splits)

subsection \<open>The webhook endpoint\<close>

text \<open>
  C1. A webhook event whose external event id is on record as processed is a no-op:
  the endpoint answers 200 and the ledger is exactly the one it was given, so nothing
  is activated or written a second time. And a delivery that succeeded leaves the
  ledger in such a state: delivering the same event again, at any later time, answers
  200 and changes nothing.
\<close>

theorem duplicate_webhook_is_noop:
  assumes "construct_event payload sig_header secret = Inr ev"
  shows "(\<forall>k e. event_by_external_id L (ev_id ev) = Some (k, e) \<and> we_status e = ''processed'' \<longrightarrow>
            stripe_webhook construct_event (process_stripe_webhook now) secret L payload sig_header
              = (200, L))
       \<and> (\<forall>L1. keys_allocated L
              \<and> stripe_webhook construct_event (process_stripe_webhook now) secret L payload sig_header
                  = (200, L1) \<longrightarrow>
            stripe_webhook construct_event (process_stripe_webhook now2) secret L1 payload sig_header
              = (200, L1))"
proof (intro conjI allI impI)
  fix k e
  assume "event_by_external_id L (ev_id ev) = Some (k, e) \<and> we_status e = ''processed''"
  then have "process_stripe_webhook now L ev = (True, L)"
    by (simp add: already_processed)
  then show "stripe_webhook construct_event (process_stripe_webhook now) secret L payload sig_header
               = (200, L)"
    using assms by (simp add: stripe_webhook_200)
next
  fix L1
  assume a: "keys_allocated L
      \<and> stripe_webhook construct_event (process_stripe_webhook now) secret L payload sig_header
          = (200, L1)"
  then have "process_stripe_webhook now L ev = (True, L1)"
    using assms by (simp add: stripe_webhook_200)
  moreover from a have "keys_allocated L" by simp
  ultimately have "process_stripe_webhook now2 L1 ev = (True, L1)"
    by (rule process_stripe_webhook_idem [rotated])
  then show "stripe_webhook construct_event (process_stripe_webhook now2) secret L1 payload sig_header
               = (200, L1)"
    using assms by (simp add: stripe_webhook_200)
qed

theorem duplicate_webhook_is_noop_witness:
  "keys_allocated ledger_pending
   \<and> fst (stripe_webhook (\<lambda>p s k. Inr event1) (process_stripe_webhook 100) ''whsec''
            ledger_pending ''{}'' (Some ''t=1,v1=ab'')) = 200
   \<and> stripe_webhook (\<lambda>p s k. Inr event1) (process_stripe_webhook 500) ''whsec''
        (snd (stripe_webhook (\<lambda>p s k. Inr event1) (process_stripe_webhook 100) ''whsec''
                ledger_pending ''{}'' (Some ''t=1,v1=ab'')))
        ''{}'' (Some ''t=1,v1=ab'')
     = (200, snd (stripe_webhook (\<lambda>p s k. Inr event1) (process_stripe_webhook 100) ''whsec''
                    ledger_pending ''{}'' (Some ''t=1,v1=ab'')))"
proof -
  have w: "keys_allocated ledger_pending"
    by (simp add: keys_allocated_def ledger_pending_def)
  have f: "fst (stripe_webhook (\<lambda>p s k. Inr event1) (process_stripe_webhook 100) ''whsec''
            ledger_pending ''{}'' (Some ''t=1,v1=ab'')) = 200"
    by (simp add: stripe_webhook_def process_stripe_webhook_def event_by_external_id_def
          run_event_def dispatch_event_def payment_by_session_def ledger_pending_def
          payment10_def event1_def split: prod.splits)
  from duplicate_webhook_is_noop
         [of "\<lambda>p s k. Inr event1" "''{}''" "Some ''t=1,v1=ab''" "''whsec''" event1
             ledger_pending 100 500] w f
  show ?thesis by (simp add: prod_eq_iff)
qed

text \<open>
  C5. When the verification of the signature or the parsing of the payload fails, the
  endpoint answers 400 and returns the ledger it was given: no WebhookEvent is
  inserted and no Payment or Subscription changes. The webhook service is not called;
  the result is the same whatever it would do.
\<close>

theorem stripe_webhook_rejects_unverified:
  assumes "construct_event payload sig_header secret = Inl err"
  shows "stripe_webhook construct_event process secret L payload sig_header = (400, L)"
  using assms by (cases err) (simp_all add: stripe_webhook_def)

theorem stripe_webhook_rejects_unverified_witness:
  "stripe_webhook (\<lambda>p s k. Inl SignatureVerificationError) (process_stripe_webhook 100) ''whsec''
     ledger_pending ''{}'' None = (400, ledger_pending)
   \<and> stripe_webhook (\<lambda>p s k. Inl ValueError) (process_stripe_webhook 100) ''whsec''
     ledger_pending ''not json'' (Some ''t=1,v1=ab'') = (400, ledger_pending)"
  using stripe_webhook_rejects_unverified
          [of "\<lambda>p s k. Inl SignatureVerificationError" "''{}''" None "''whsec''"
              SignatureVerificationError "process_stripe_webhook 100" ledger_pending]
        stripe_webhook_rejects_unverified
          [of "\<lambda>p s k. Inl ValueError" "''not json''" "Some ''t=1,v1=ab''" "''whsec''"
              ValueError "process_stripe_webhook 100" ledger_pending]
  by simp

subsection \<open>The payment state machine\<close>

text \<open>
  C2. Saving a stored Payment with a new status. The save runs the Payment Service's
  transition into succeeded (\<open>process_successful_payment\<close>) or into failed
  (\<open>process_failed_payment\<close>) only when the status stored before the save was
  pending or processing. From any other stored status, and for any other new status,
  the save applies no transition operation and raises no error, whatever the two
  operations would have done; the save itself still writes the instance's fields,
  its new status among them, to the row.
\<close>

theorem Payment_save_transition:
  assumes "pk inst = Some k" and "map_of (payments L) k = Some stored"
      and "k \<noteq> 0 \<or> previous_status inst = None"
  shows "(k = 0 \<or> status stored \<notin> {''pending'', ''processing''}
            \<or> status (row inst) \<notin> {''succeeded'', ''failed''} \<longrightarrow>
            Payment_save succ fail L inst
              = Inr (L\<lparr>payments := AList.update k (row inst) (payments L)\<rparr>))
       \<and> (k \<noteq> 0 \<and> status stored \<in> {''pending'', ''processing''}
            \<and> status (row inst) = ''succeeded'' \<longrightarrow>
            Payment_save succ fail L inst
              = succ (L\<lparr>payments := AList.update k (row inst) (payments L)\<rparr>)
                  (inst\<lparr>previous_status := Some (Some (status stored))\<rparr>))
       \<and> (k \<noteq> 0 \<and> status stored \<in> {''pending'', ''processing''}
            \<and> status (row inst) = ''failed'' \<longrightarrow>
            Payment_save succ fail L inst
              = fail (L\<lparr>payments := AList.update k (row inst) (payments L)\<rparr>)
                  (inst\<lparr>previous_status := Some (Some (status stored))\<rparr>))"
  using assms
  by (auto simp add: Payment_save_def payment_pre_save_def payment_post_save_def Let_def)

theorem Payment_save_transition_witness:
  "Payment_save (\<lambda>L i. Inl (previous_status i)) (\<lambda>L i. Inl None) ledger_pending
       (loaded 10 (payment10\<lparr>status := ''succeeded''\<rparr>))
     = Inl (Some (Some ''pending''))
   \<and> Payment_save (\<lambda>L i. Inl (previous_status i)) (\<lambda>L i. Inl None) ledger_cancelled
       (loaded 10 (payment10\<lparr>status := ''succeeded''\<rparr>))
     = Inr (ledger_cancelled\<lparr>payments := [(10, payment10\<lparr>status := ''succeeded''\<rparr>)]\<rparr>)"
  using Payment_save_transition
          [where inst = "loaded 10 (payment10\<lparr>status := ''succeeded''\<rparr>)" and k = 10
             and L = ledger_pending and stored = payment10
             and succ = "\<lambda>L i. Inl (previous_status i)" and fail = "\<lambda>L i. Inl None"]
        Payment_save_transition
          [where inst = "loaded 10 (payment10\<lparr>status := ''succeeded''\<rparr>)" and k = 10
             and L = ledger_cancelled and stored = "payment10\<lparr>status := ''cancelled''\<rparr>"
             and succ = "\<lambda>L i. Inl (previous_status i)" and fail = "\<lambda>L i. Inl None"]
  by (simp add: loaded_def ledger_cancelled_def ledger_pending_def payment10_def)

text \<open>
  A transition into succeeded from the terminal status cancelled, and one into failed
  from succeeded, are not no-ops: no transition operation runs and nothing is raised,
  but the row carries the new status after the save.
\<close>

theorem Payment_save_overwrites_terminal_status:
  "Payment_save (\<lambda>L i. Inl ()) (\<lambda>L i. Inl ()) ledger_cancelled
       (loaded 10 (payment10\<lparr>status := ''succeeded''\<rparr>))
     = Inr (ledger_cancelled\<lparr>payments := [(10, payment10\<lparr>status := ''succeeded''\<rparr>)]\<rparr>)
   \<and> Payment_save (\<lambda>L i. Inl ()) (\<lambda>L i. Inl ()) ledger_cancelled
       (loaded 10 (payment10\<lparr>status := ''succeeded''\<rparr>))
     \<noteq> Inr ledger_cancelled
   \<and> map_option status (map_of (payments ledger_cancelled) 10) = Some ''cancelled''
   \<and> Payment_save (\<lambda>L i. Inl ()) (\<lambda>L i. Inl ()) ledger_paid
       (loaded 10 (payment10\<lparr>status := ''failed''\<rparr>))
     = Inr (ledger_paid\<lparr>payments := [(10, payment10\<lparr>status := ''failed''\<rparr>)]\<rparr>)
   \<and> Payment_save (\<lambda>L i. Inl ()) (\<lambda>L i. Inl ()) ledger_paid
       (loaded 10 (payment10\<lparr>status := ''failed''\<rparr>))
     \<noteq> Inr ledger_paid
   \<and> map_option status (map_of (payments ledger_paid) 10) = Some ''succeeded''"
  by (simp add: Payment_save_def payment_pre_save_def payment_post_save_def Let_def
        loaded_def ledger_cancelled_def ledger_paid_def payment10_def)

subsection \<open>Refunds\<close>

text \<open>
  C3. When a refund passes the checks and the provider's refund call succeeds, the view
  answers 201 and the new Refund has status succeeded. If the refund amount equals the
  payment's amount and the payment has a linked subscription, the subscription is
  cancelled and its user has no pinned post afterwards. If the amount differs or no
  subscription is linked, subscriptions and pinned posts are as before.
\<close>

theorem create_refund_success_cascades:
  assumes "map_of (payments L) pid = Some payment"
      and "can_be_refunded L pid payment"
      and "RefundCreateSerializer_is_valid L pid data"
      and "refund_payment payment (req_amount data) (req_reason data)"
  shows "fst (create_refund refund_payment L admin pid data) = 201
       \<and> map_of (refunds (snd (create_refund refund_payment L admin pid data))) (next_id L)
           = Some ((new_refund pid admin data)\<lparr>refund_status := ''succeeded''\<rparr>)
       \<and> (req_amount data = amount payment \<and> subscription payment = Some sid
            \<and> map_of (subscriptions L) sid = Some s \<longrightarrow>
              map_of (subscriptions (snd (create_refund refund_payment L admin pid data))) sid
                = Some (s\<lparr>sub_status := ''cancelled''\<rparr>)
            \<and> pinned_posts (snd (create_refund refund_payment L admin pid data)) (sub_user s) = None)
       \<and> (req_amount data \<noteq> amount payment \<or> subscription payment = None \<longrightarrow>
              subscriptions (snd (create_refund refund_payment L admin pid data)) = subscriptions L
            \<and> pinned_posts (snd (create_refund refund_payment L admin pid data)) = pinned_posts L)"
  using assms
  by (auto simp add: create_refund_def Let_def new_refund_def process_refund_def update_conv
        cancel_subscription_effect cancel_subscription_frame split: option.splits)

theorem create_refund_success_cascades_witness:
  "pinned_posts ledger_paid 1 = Some post7
   \<and> fst (create_refund (\<lambda>p a r. True) ledger_paid 99 10
            \<lparr>req_amount = 1000, req_reason = ''requested_by_customer''\<rparr>) = 201
   \<and> map_of (refunds (snd (create_refund (\<lambda>p a r. True) ledger_paid 99 10
            \<lparr>req_amount = 1000, req_reason = ''requested_by_customer''\<rparr>))) 11
       = Some \<lparr>refund_payment_id = 10, refund_amount = 1000,
               refund_reason = ''requested_by_customer'', refund_status = ''succeeded'',
               refund_created_by = 99\<rparr>
   \<and> map_of (subscriptions (snd (create_refund (\<lambda>p a r. True) ledger_paid 99 10
            \<lparr>req_amount = 1000, req_reason = ''requested_by_customer''\<rparr>))) 5
       = Some (subscription5\<lparr>sub_status := ''cancelled'', end_date := 2592000\<rparr>)
   \<and> pinned_posts (snd (create_refund (\<lambda>p a r. True) ledger_paid 99 10
            \<lparr>req_amount = 1000, req_reason = ''requested_by_customer''\<rparr>)) 1 = None"
  using create_refund_success_cascades
          [of ledger_paid 10 "payment10\<lparr>status := ''succeeded''\<rparr>"
              "\<lparr>req_amount = 1000, req_reason = ''requested_by_customer''\<rparr>"
              "\<lambda>p a r. True" 99 5
              "subscription5\<lparr>sub_status := ''active'', end_date := 2592000\<rparr>"]
  by (simp add: ledger_paid_def payment10_def subscription5_def can_be_refunded_def
        total_refunded_def RefundCreateSerializer_is_valid_def new_refund_def)

text \<open>
  C4. When a refund passes the checks and the provider's refund call fails, the view
  answers 400, the new Refund is kept with status failed, and the payments (status,
  amount, linked subscription), the subscriptions, the pinned posts and the history
  are exactly as before.
\<close>

theorem create_refund_provider_failure:
  assumes "map_of (payments L) pid = Some payment"
      and "can_be_refunded L pid payment"
      and "RefundCreateSerializer_is_valid L pid data"
      and "\<not> refund_payment payment (req_amount data) (req_reason data)"
  shows "fst (create_refund refund_payment L admin pid data) = 400
       \<and> map_of (refunds (snd (create_refund refund_payment L admin pid data))) (next_id L)
           = Some ((new_refund pid admin data)\<lparr>refund_status := ''failed''\<rparr>)
       \<and> payments (snd (create_refund refund_payment L admin pid data)) = payments L
       \<and> subscriptions (snd (create_refund refund_payment L admin pid data)) = subscriptions L
       \<and> pinned_posts (snd (create_refund refund_payment L admin pid data)) = pinned_posts L
       \<and> history (snd (create_refund refund_payment L admin pid data)) = history L"
  using assms
  by (simp add: create_refund_def Let_def new_refund_def update_conv)

theorem create_refund_provider_failure_witness:
  "create_refund (\<lambda>p a r. False) ledger_paid 99 10
       \<lparr>req_amount = 1000, req_reason = ''requested_by_customer''\<rparr>
     = (400, ledger_paid
          \<lparr>refunds := [(11, \<lparr>refund_payment_id = 10, refund_amount = 1000,
                              refund_reason = ''requested_by_customer'',
                              refund_status = ''failed'', refund_created_by = 99\<rparr>)],
           next_id := 12\<rparr>)"
  using create_refund_provider_failure
          [of ledger_paid 10 "payment10\<lparr>status := ''succeeded''\<rparr>"
              "\<lparr>req_amount = 1000, req_reason = ''requested_by_customer''\<rparr>"
              "\<lambda>p a r. False" 99]
  by (simp add: ledger_paid_def payment10_def can_be_refunded_def total_refunded_def
        RefundCreateSerializer_is_valid_def new_refund_def create_refund_def Let_def)

subsection \<open>Pinned posts\<close>

lemma PinnedPostSerializer_is_valid_ignores_ledger:
  "PinnedPostSerializer_is_valid L user post = validate_post user post"
  by (simp add: PinnedPostSerializer_is_valid_def Serializer_validate_def split: sum.splits)

lemma pinned_post_post_save_guard:
  assumes "case user_subscription L (pin_user inst) of
             None \<Rightarrow> True
           | Some (sid, s) \<Rightarrow> \<not> is_active s"
  shows "pinned_posts (pinned_post_post_save L inst True) (pin_user inst) = None"
  using assms
  by (auto simp add: pinned_post_post_save_def PinnedPost_delete_frame split: option.splits)

text \<open>
  C6. A pin attempt by a user without an active subscription, made through
  PinnedPostSerializer. User 2 has no subscription and user 1 a cancelled one; each
  pins a published post of their own. The check written in \<open>validete\<close> refuses
  both, and so does \<open>PinPostSerializer.validate\<close>, but the serializer's validation
  accepts them. The pinned post is inserted and then deleted by the post-save handler;
  for user 1 that leaves a "post_unpinned" row in the subscription history.
\<close>

theorem pin_without_active_subscription_passes_validation:
  "validete ledger_pending 2 post8
     = Inl (ValidationError ''Active subscription required to pin posts.'')
   \<and> PinPostSerializer_validate ledger_pending 2 8
     = Inl (ValidationError ''Active subscription required to pin posts.'')
   \<and> PinnedPostSerializer_is_valid ledger_pending 2 post8 = Inr post8
   \<and> PinnedPostSerializer_save ledger_pending 2 post8 = Inr ledger_pending
   \<and> validete ledger_cancelled 1 post7
     = Inl (ValidationError ''Active subscription required to pin posts.'')
   \<and> PinnedPostSerializer_is_valid ledger_cancelled 1 post7 = Inr post7
   \<and> PinnedPostSerializer_save ledger_cancelled 1 post7
     = Inr (ledger_cancelled
              \<lparr>history := [\<lparr>h_subscription = 5, h_action = ''post_unpinned'',
                             h_post = Some (7, ''Hello'')\<rparr>]\<rparr>)"
  by (simp add: validete_def PinPostSerializer_validate_def PinnedPostSerializer_is_valid_def
        PinnedPostSerializer_save_def PinnedPostSerializer_create_def Serializer_validate_def
        validate_post_def pinned_post_post_save_def PinnedPost_delete_def
        pinned_post_pre_delete_def user_subscription_def is_active_def Let_def
        ledger_pending_def ledger_cancelled_def post7_def post8_def subscription5_def)

text \<open>
  C10. Deleting a Subscription row deletes its user's pinned post, if there is one,
  in the pre-delete handler: after the handler, and after the deletion, the user has
  no pinned post, the subscription is gone, and every other user's pinned post is as
  before.
\<close>

theorem subscription_delete_removes_pinned_post:
  assumes "map_of (subscriptions L) sid = Some s"
  shows "pinned_posts (subscription_pre_delete L s) (sub_user s) = None
       \<and> pinned_posts (Subscription_delete L sid) (sub_user s) = None
       \<and> map_of (subscriptions (Subscription_delete L sid)) sid = None
       \<and> (\<forall>u. u \<noteq> sub_user s \<longrightarrow>
             pinned_posts (Subscription_delete L sid) u = pinned_posts L u)"
  using assms
  by (simp add: Subscription_delete_def subscription_pre_delete_def PinnedPost_delete_frame
        Let_def delete_conv split: option.splits)

theorem subscription_delete_removes_pinned_post_witness:
  "pinned_posts ledger_paid 1 = Some post7
   \<and> pinned_posts (Subscription_delete ledger_paid 5) 1 = None
   \<and> map_of (subscriptions (Subscription_delete ledger_paid 5)) 5 = None"
  using subscription_delete_removes_pinned_post
          [of ledger_paid 5 "subscription5\<lparr>sub_status := ''active'', end_date := 2592000\<rparr>"]
  by (simp add: ledger_paid_def subscription5_def)

subsection \<open>Reconciliation and cancellation\<close>

lemma payment_status_not_stale:
  assumes "get_payment L pid user = Some payment" and "\<not> (\<exists>sid. stale payment sid)"
  shows "payment_status rs succ fail L user pid = Inr (200, L, [])"
  using assms by (auto simp add: payment_status_def stale_def split: option.splits)

lemma payment_status_complete:
  assumes "get_payment L pid user = Some payment" and "stale payment sid"
      and "rs sid = Some ''complete''"
  shows "payment_status rs succ fail L user pid
           = (case succ L (loaded pid payment) of
                Inl e \<Rightarrow> Inl e
              | Inr L1 \<Rightarrow> Inr (200, L1, [sid]))"
  using assms by (auto simp add: payment_status_def stale_def)

lemma payment_status_failed:
  assumes "get_payment L pid user = Some payment" and "stale payment sid"
      and "rs sid = Some ''failed''"
  shows "payment_status rs succ fail L user pid
           = (case fail L (loaded pid payment) ''Session failed'' of
                Inl e \<Rightarrow> Inl e
              | Inr L1 \<Rightarrow> Inr (200, L1, [sid]))"
  using assms by (auto simp add: payment_status_def stale_def)

lemma payment_status_other:
  assumes "get_payment L pid user = Some payment" and "stale payment sid"
      and "rs sid \<notin> {Some ''complete'', Some ''failed''}"
  shows "payment_status rs succ fail L user pid = Inr (200, L, [sid])"
  using assms by (auto simp add: payment_status_def stale_def split: option.splits)

lemma webhook_complete:
  assumes "payment_by_session L sid = Some (pid, payment)"
      and "ev_session_id ev = sid" and "ev_type ev = Checkout_session_completed"
      and "\<forall>k e. event_by_external_id L (ev_id ev) = Some (k, e) \<longrightarrow> we_status e \<noteq> ''processed''"
  shows "fst (process_stripe_webhook now L ev)"
    and "same_entitlements (process_successful_payment now L pid)
           (snd (process_stripe_webhook now L ev))"
  using assms
  by (auto simp add: process_stripe_webhook_def run_event_def dispatch_event_def
        same_entitlements_def process_successful_payment_events payment_by_session_events
        set_event_status_frame split: option.splits)

lemma webhook_failed:
  assumes "payment_by_session L sid = Some (pid, payment)"
      and "ev_session_id ev = sid" and "ev_type ev = Payment_failed"
      and "\<forall>k e. event_by_external_id L (ev_id ev) = Some (k, e) \<longrightarrow> we_status e \<noteq> ''processed''"
  shows "fst (process_stripe_webhook now L ev)"
    and "same_entitlements (process_failed_payment L pid ''Session failed'')
           (snd (process_stripe_webhook now L ev))"
  using assms process_failed_payment_reason [of L pid "ev_reason ev" "''Session failed''"]
  by (auto simp add: process_stripe_webhook_def run_event_def dispatch_event_def
        same_entitlements_def process_failed_payment_events payment_by_session_events
        set_event_status_frame split: option.splits)

text \<open>
  C7. The status check of a payment the user owns. When the payment is not stale
  (its status is not pending or processing, or it has no provider session id) the
  provider is not asked and the ledger is returned as it is. When it is stale the
  provider is asked once, about the payment's session: a complete session applies
  the succeeded operation to the payment, a failed one the failed operation with
  the reason "Session failed", and anything else leaves the ledger as it is. With
  the Payment Service's operations in place, the ledger the check leaves has the
  same payments, subscriptions, pinned posts and history as the one the webhook
  service leaves for the event of that session (completed, or failed), which
  succeeds.
\<close>

theorem payment_status_reconciles_like_webhook:
  assumes "get_payment L pid user = Some payment"
  shows "(\<not> (\<exists>sid. stale payment sid) \<longrightarrow>
            payment_status rs succ fail L user pid = Inr (200, L, []))
       \<and> (\<forall>sid. stale payment sid \<and> rs sid = Some ''complete'' \<longrightarrow>
            payment_status rs succ fail L user pid
              = (case succ L (loaded pid payment) of
                   Inl e \<Rightarrow> Inl e
                 | Inr L1 \<Rightarrow> Inr (200, L1, [sid])))
       \<and> (\<forall>sid. stale payment sid \<and> rs sid = Some ''failed'' \<longrightarrow>
            payment_status rs succ fail L user pid
              = (case fail L (loaded pid payment) ''Session failed'' of
                   Inl e \<Rightarrow> Inl e
                 | Inr L1 \<Rightarrow> Inr (200, L1, [sid])))
       \<and> (\<forall>sid. stale payment sid \<and> rs sid \<notin> {Some ''complete'', Some ''failed''} \<longrightarrow>
            payment_status rs succ fail L user pid = Inr (200, L, [sid]))
       \<and> (\<forall>sid ev. stale payment sid \<and> payment_by_session L sid = Some (pid, payment)
              \<and> ev_session_id ev = sid
              \<and> (\<forall>k e. event_by_external_id L (ev_id ev) = Some (k, e)
                     \<longrightarrow> we_status e \<noteq> ''processed'') \<longrightarrow>
            (rs sid = Some ''complete'' \<and> ev_type ev = Checkout_session_completed \<longrightarrow>
               (\<exists>L1. payment_status rs (service_succeeded now) service_failed L user pid
                        = Inr (200, L1, [sid])
                    \<and> fst (process_stripe_webhook now L ev)
                    \<and> same_entitlements L1 (snd (process_stripe_webhook now L ev))))
          \<and> (rs sid = Some ''failed'' \<and> ev_type ev = Payment_failed \<longrightarrow>
               (\<exists>L1. payment_status rs (service_succeeded now) service_failed L user pid
                        = Inr (200, L1, [sid])
                    \<and> fst (process_stripe_webhook now L ev)
                    \<and> same_entitlements L1 (snd (process_stripe_webhook now L ev)))))"
proof (intro conjI allI impI)
  assume "\<not> (\<exists>sid. stale payment sid)"
  with assms show "payment_status rs succ fail L user pid = Inr (200, L, [])"
    by (rule payment_status_not_stale)
next
  fix sid
  assume "stale payment sid \<and> rs sid = Some ''complete''"
  with assms show "payment_status rs succ fail L user pid
      = (case succ L (loaded pid payment) of Inl e \<Rightarrow> Inl e | Inr L1 \<Rightarrow> Inr (200, L1, [sid]))"
    by (simp add: payment_status_complete)
next
  fix sid
  assume "stale payment sid \<and> rs sid = Some ''failed''"
  with assms show "payment_status rs succ fail L user pid
      = (case fail L (loaded pid payment) ''Session failed'' of
           Inl e \<Rightarrow> Inl e | Inr L1 \<Rightarrow> Inr (200, L1, [sid]))"
    by (simp add: payment_status_failed)
next
  fix sid
  assume "stale payment sid \<and> rs sid \<notin> {Some ''complete'', Some ''failed''}"
  with assms show "payment_status rs succ fail L user pid = Inr (200, L, [sid])"
    by (simp add: payment_status_other)
next
  fix sid :: string and ev :: stripe_event
  assume a: "stale payment sid \<and> payment_by_session L sid = Some (pid, payment)
              \<and> ev_session_id ev = sid
              \<and> (\<forall>k e. event_by_external_id L (ev_id ev) = Some (k, e)
                     \<longrightarrow> we_status e \<noteq> ''processed'')"
    and b: "rs sid = Some ''complete'' \<and> ev_type ev = Checkout_session_completed"
  from a b have s: "stale payment sid" and c: "rs sid = Some ''complete''"
    by simp_all
  from payment_status_complete
         [where rs = rs and succ = "service_succeeded now" and fail = service_failed, OF assms s c]
  have "payment_status rs (service_succeeded now) service_failed L user pid
          = Inr (200, process_successful_payment now L pid, [sid])"
    by (simp add: service_succeeded_def loaded_def)
  moreover from a b have "fst (process_stripe_webhook now L ev)"
    by (intro webhook_complete(1) [of L sid pid payment]) simp_all
  moreover from a b have "same_entitlements (process_successful_payment now L pid)
      (snd (process_stripe_webhook now L ev))"
    by (intro webhook_complete(2) [of L sid pid payment]) simp_all
  ultimately
  show "\<exists>L1. payment_status rs (service_succeeded now) service_failed L user pid
                = Inr (200, L1, [sid])
            \<and> fst (process_stripe_webhook now L ev)
            \<and> same_entitlements L1 (snd (process_stripe_webhook now L ev))"
    by blast
next
  fix sid :: string and ev :: stripe_event
  assume a: "stale payment sid \<and> payment_by_session L sid = Some (pid, payment)
              \<and> ev_session_id ev = sid
              \<and> (\<forall>k e. event_by_external_id L (ev_id ev) = Some (k, e)
                     \<longrightarrow> we_status e \<noteq> ''processed'')"
    and b: "rs sid = Some ''failed'' \<and> ev_type ev = Payment_failed"
  from a b have s: "stale payment sid" and c: "rs sid = Some ''failed''"
    by simp_all
  from payment_status_failed
         [where rs = rs and succ = "service_succeeded now" and fail = service_failed, OF assms s c]
  have "payment_status rs (service_succeeded now) service_failed L user pid
          = Inr (200, process_failed_payment L pid ''Session failed'', [sid])"
    by (simp add: service_failed_def loaded_def)
  moreover from a b have "fst (process_stripe_webhook now L ev)"
    by (intro webhook_failed(1) [of L sid pid payment]) simp_all
  moreover from a b have "same_entitlements (process_failed_payment L pid ''Session failed'')
      (snd (process_stripe_webhook now L ev))"
    by (intro webhook_failed(2) [of L sid pid payment]) simp_all
  ultimately
  show "\<exists>L1. payment_status rs (service_succeeded now) service_failed L user pid
                = Inr (200, L1, [sid])
            \<and> fst (process_stripe_webhook now L ev)
            \<and> same_entitlements L1 (snd (process_stripe_webhook now L ev))"
    by blast
qed

theorem payment_status_reconciles_like_webhook_witness:
  "stale payment10 ''cs_test_1''
   \<and> payment_status (\<lambda>s. Some ''complete'') (service_succeeded 100) service_failed
         ledger_pending 1 10
       = Inr (200, process_successful_payment 100 ledger_pending 10, [''cs_test_1''])
   \<and> fst (process_stripe_webhook 100 ledger_pending event1)
   \<and> same_entitlements (process_successful_payment 100 ledger_pending 10)
         (snd (process_stripe_webhook 100 ledger_pending event1))
   \<and> map_of (payments (process_successful_payment 100 ledger_pending 10)) 10
       = Some (payment10\<lparr>status := ''succeeded''\<rparr>)
   \<and> map_of (subscriptions (process_successful_payment 100 ledger_pending 10)) 5
       = Some (subscription5\<lparr>sub_status := ''active'', start_date := 100,
                              end_date := 2592100\<rparr>)"
proof -
  have g: "get_payment ledger_pending 10 1 = Some payment10"
    by (simp add: get_payment_def ledger_pending_def payment10_def)
  have st: "stale payment10 ''cs_test_1''"
    by (simp add: stale_def payment10_def)
  have pb: "payment_by_session ledger_pending ''cs_test_1'' = Some (10, payment10)"
    by (simp add: payment_by_session_def ledger_pending_def payment10_def)
  have ne: "\<forall>k e. event_by_external_id ledger_pending (ev_id event1) = Some (k, e)
              \<longrightarrow> we_status e \<noteq> ''processed''"
    by (simp add: event_by_external_id_def ledger_pending_def)
  have ev: "ev_session_id event1 = ''cs_test_1''" "ev_type event1 = Checkout_session_completed"
    by (simp_all add: event1_def)
  from payment_status_reconciles_like_webhook
         [OF g, where rs = "\<lambda>s. Some ''complete''" and now = 100
            and succ = "service_succeeded 100" and fail = service_failed]
  have "\<exists>L1. payment_status (\<lambda>s. Some ''complete'') (service_succeeded 100) service_failed
                 ledger_pending 1 10 = Inr (200, L1, [''cs_test_1''])
            \<and> fst (process_stripe_webhook 100 ledger_pending event1)
            \<and> same_entitlements L1 (snd (process_stripe_webhook 100 ledger_pending event1))"
    using st pb ne ev by blast
  moreover
  have "payment_status (\<lambda>s. Some ''complete'') (service_succeeded 100) service_failed
          ledger_pending 1 10
        = Inr (200, process_successful_payment 100 ledger_pending 10, [''cs_test_1''])"
    using g by (simp add: payment_status_def payment10_def service_succeeded_def loaded_def)
  moreover
  have "map_of (payments (process_successful_payment 100 ledger_pending 10)) 10
          = Some (payment10\<lparr>status := ''succeeded''\<rparr>)"
       "map_of (subscriptions (process_successful_payment 100 ledger_pending 10)) 5
          = Some (subscription5\<lparr>sub_status := ''active'', start_date := 100,
                                 end_date := 2592100\<rparr>)"
    by (simp_all add: process_successful_payment_def ledger_pending_def payment10_def
          subscription5_def Let_def)
  ultimately show ?thesis using st by auto
qed

text \<open>
  C9. Cancelling a payment the user owns. A payment that is not pending is refused
  with 400 and the ledger is left as it is. A pending payment is saved with status
  cancelled (the signal handlers apply no transition operation on that save); then,
  if a subscription is linked, its \<open>cancel()\<close> is called on that ledger whatever the
  subscription's status is, and its outcome is the view's.
\<close>

theorem cancel_payment_cancels_subscription_unconditionally:
  assumes "get_payment L pid user = Some payment"
  shows "(\<not> is_pending payment \<longrightarrow>
            cancel_payment succ fail cancel L user pid = Inr (400, L))
       \<and> (is_pending payment \<and> subscription payment = None \<longrightarrow>
            cancel_payment succ fail cancel L user pid
              = Inr (200, L\<lparr>payments :=
                               AList.update pid (payment\<lparr>status := ''cancelled''\<rparr>) (payments L)\<rparr>))
       \<and> (\<forall>sid. is_pending payment \<and> subscription payment = Some sid \<longrightarrow>
            cancel_payment succ fail cancel L user pid
              = (case cancel
                        (L\<lparr>payments :=
                             AList.update pid (payment\<lparr>status := ''cancelled''\<rparr>) (payments L)\<rparr>)
                        sid of
                   Inl e \<Rightarrow> Inl e
                 | Inr L2 \<Rightarrow> Inr (200, L2)))"
  using assms
  by (auto simp add: cancel_payment_def get_payment_def Payment_save_def payment_pre_save_def
        payment_post_save_def loaded_def Let_def is_pending_def split: option.splits if_splits)

theorem cancel_payment_cancels_subscription_unconditionally_witness:
  "cancel_payment (\<lambda>L i. Inl 0) (\<lambda>L i. Inl 0) (\<lambda>L sid. Inl sid) ledger_paid 1 10
     = Inr (400, ledger_paid)
   \<and> cancel_payment (\<lambda>L i. Inl 0) (\<lambda>L i. Inl 0) (\<lambda>L sid. Inl sid) ledger_pending 1 10
     = Inl 5
   \<and> cancel_payment (\<lambda>L i. Inl 0) (\<lambda>L i. Inl 0) (\<lambda>L sid. Inl sid)
        (ledger_pending\<lparr>subscriptions := [(5, subscription5\<lparr>sub_status := ''expired''\<rparr>)]\<rparr>) 1 10
     = Inl 5
   \<and> cancel_payment (\<lambda>L i. Inl 0) (\<lambda>L i. Inl 0) (\<lambda>L sid. Inr L) ledger_pending 1 10
     = Inr (200, ledger_pending\<lparr>payments := [(10, payment10\<lparr>status := ''cancelled''\<rparr>)]\<rparr>)"
  using cancel_payment_cancels_subscription_unconditionally
          [of ledger_paid 10 1 "payment10\<lparr>status := ''succeeded''\<rparr>"
              "\<lambda>L i. Inl 0" "\<lambda>L i. Inl 0" "\<lambda>L sid. Inl sid"]
        cancel_payment_cancels_subscription_unconditionally
          [of ledger_pending 10 1 payment10
              "\<lambda>L i. Inl 0" "\<lambda>L i. Inl 0" "\<lambda>L sid. Inl sid"]
        cancel_payment_cancels_subscription_unconditionally
          [of "ledger_pending\<lparr>subscriptions := [(5, subscription5\<lparr>sub_status := ''expired''\<rparr>)]\<rparr>"
              10 1 payment10 "\<lambda>L i. Inl 0" "\<lambda>L i. Inl 0" "\<lambda>L sid. Inl sid"]
        cancel_payment_cancels_subscription_unconditionally
          [of ledger_pending 10 1 payment10
              "\<lambda>L i. Inl 0" "\<lambda>L i. Inl 0" "\<lambda>L sid. Inr L"]
  by (simp add: get_payment_def is_pending_def ledger_paid_def ledger_pending_def payment10_def)

subsection \<open>The retry task\<close>

lemma retry_loop_count:
  "c \<le> fst (retry_loop process es L c) \<and> fst (retry_loop process es L c) \<le> c + length es"
proof (induction es arbitrary: L c)
  case Nil
  then show ?case by simp
next
  case (Cons a es)
  obtain k e where a: "a = (k, e)" by (cases a)
  obtain success L1 where p: "process L (we_data e) = (success, L1)"
    by (cases "process L (we_data e)")
  show ?case
  proof (cases success)
    case True
    with a p Cons.IH [of "Suc c" "mark_as_processed L1 k e"] show ?thesis by simp
  next
    case False
    with a p Cons.IH [of c L1] show ?thesis by simp
  qed
qed

lemma retry_loop_cong:
  assumes "\<forall>L1. \<forall>(k, e) \<in> set es. process L1 (we_data e) = process' L1 (we_data e)"
  shows "retry_loop process es L c = retry_loop process' es L c"
  using assms
proof (induction es arbitrary: L c)
  case Nil
  then show ?case by simp
next
  case (Cons a es)
  obtain k e where a: "a = (k, e)" by (cases a)
  from Cons.prems a have h: "process L (we_data e) = process' L (we_data e)" by auto
  from Cons.prems
  have t: "\<forall>L1. \<forall>(k, e) \<in> set es. process L1 (we_data e) = process' L1 (we_data e)"
    by auto
  show ?case
    by (simp add: a h Cons.IH [OF t] split: prod.splits)
qed

lemma mark_as_processed_history:
  "history (mark_as_processed L k e) = history L"
  by (simp add: mark_as_processed_def)

lemma retry_loop_recording:
  "fst (retry_loop (recording_service ok) es L c)
     = c + length (filter (\<lambda>(k, e). ok (we_data e)) es)
   \<and> history (snd (retry_loop (recording_service ok) es L c))
     = history L @ map (\<lambda>(k, e). call_marker (we_data e)) es"
proof (induction es arbitrary: L c)
  case Nil
  then show ?case by simp
next
  case (Cons a es)
  obtain k e where a: "a = (k, e)" by (cases a)
  have p: "recording_service ok L (we_data e)
             = (ok (we_data e), L\<lparr>history := history L @ [call_marker (we_data e)]\<rparr>)"
    by (simp add: recording_service_def)
  show ?case
    by (simp add: a p Cons.IH mark_as_processed_history)
qed

text \<open>
  C8. One run of the retry task. The events of its query are rows of the webhook
  event table with status failed, created at most 24 hours (86400 seconds) before
  the run, and there are at most 50 of them. The run calls the webhook service on
  these events and on nothing else: two services that agree on the stored data of
  the selected events give the same count and the same ledger, whatever they do on
  any other event; and a service that records each call leaves exactly one marker
  for each selected event, in the order of the query, and the task counts the calls
  that succeeded. The count is at most the number of selected events, so at most 50.
\<close>

theorem retry_failed_webhook_events_batch:
  "length (failed_events now L) \<le> 50
   \<and> (\<forall>(k, e) \<in> set (failed_events now L).
         (k, e) \<in> set (webhook_events L) \<and> we_status e = ''failed''
         \<and> now - 86400 \<le> we_created_at e)
   \<and> fst (retry_failed_webhook_events process now L) \<le> length (failed_events now L)
   \<and> ((\<forall>L1. \<forall>(k, e) \<in> set (failed_events now L).
           process L1 (we_data e) = process' L1 (we_data e)) \<longrightarrow>
        retry_failed_webhook_events process now L = retry_failed_webhook_events process' now L)
   \<and> fst (retry_failed_webhook_events (recording_service ok) now L)
       = length (filter (\<lambda>(k, e). ok (we_data e)) (failed_events now L))
   \<and> history (snd (retry_failed_webhook_events (recording_service ok) now L))
       = history L @ map (\<lambda>(k, e). call_marker (we_data e)) (failed_events now L)"
proof (intro conjI impI)
  show "length (failed_events now L) \<le> 50"
    by (simp add: failed_events_def)
  show "\<forall>(k, e) \<in> set (failed_events now L).
         (k, e) \<in> set (webhook_events L) \<and> we_status e = ''failed''
         \<and> now - 86400 \<le> we_created_at e"
    by (auto simp add: failed_events_def dest!: in_set_takeD)
  show "fst (retry_failed_webhook_events process now L) \<le> length (failed_events now L)"
    using retry_loop_count [of 0 process "failed_events now L" L]
    by (simp add: retry_failed_webhook_events_def)
  show "fst (retry_failed_webhook_events (recording_service ok) now L)
       = length (filter (\<lambda>(k, e). ok (we_data e)) (failed_events now L))"
    using retry_loop_recording [of ok "failed_events now L" L 0]
    by (simp add: retry_failed_webhook_events_def)
  show "history (snd (retry_failed_webhook_events (recording_service ok) now L))
       = history L @ map (\<lambda>(k, e). call_marker (we_data e)) (failed_events now L)"
    using retry_loop_recording [of ok "failed_events now L" L 0]
    by (simp add: retry_failed_webhook_events_def)
next
  assume "\<forall>L1. \<forall>(k, e) \<in> set (failed_events now L).
           process L1 (we_data e) = process' L1 (we_data e)"
  then show "retry_failed_webhook_events process now L
               = retry_failed_webhook_events process' now L"
    by (simp add: retry_failed_webhook_events_def retry_loop_cong)
qed

theorem retry_failed_webhook_events_batch_witness:
  "failed_events 100000 ledger_retry = [(20, stored_event1)]
   \<and> fst (retry_failed_webhook_events (process_stripe_webhook 100000) 100000 ledger_retry) = 1
   \<and> retry_failed_webhook_events
         (\<lambda>L ev. if ev_id ev = ''evt_1'' then process_stripe_webhook 100000 L ev
                  else (True, L\<lparr>payments := []\<rparr>))
         100000 ledger_retry
       = retry_failed_webhook_events (process_stripe_webhook 100000) 100000 ledger_retry
   \<and> fst (retry_failed_webhook_events (recording_service (\<lambda>ev. True)) 100000 ledger_retry) = 1
   \<and> history (snd (retry_failed_webhook_events (recording_service (\<lambda>ev. True)) 100000
                       ledger_retry))
       = [call_marker event1]"
proof -
  have f: "failed_events 100000 ledger_retry = [(20, stored_event1)]"
    by (simp add: failed_events_def ledger_retry_def ledger_pending_def stored_event1_def)
  have n: "fst (retry_failed_webhook_events (process_stripe_webhook 100000) 100000 ledger_retry) = 1"
    by (simp add: retry_failed_webhook_events_def failed_events_def ledger_retry_def
          ledger_pending_def stored_event1_def event1_def process_stripe_webhook_def
          event_by_external_id_def run_event_def dispatch_event_def payment_by_session_def
          payment10_def)
  have h: "history ledger_retry = []"
    by (simp add: ledger_retry_def ledger_pending_def)
  from retry_failed_webhook_events_batch
         [where now = 100000 and L = ledger_retry
            and process = "\<lambda>L ev. if ev_id ev = ''evt_1'' then process_stripe_webhook 100000 L ev
                                    else (True, L\<lparr>payments := []\<rparr>)"
            and process' = "process_stripe_webhook 100000" and ok = "\<lambda>ev. True"]
  show ?thesis
    by (simp add: f n h stored_event1_def event1_def)
qed

end
